theory Spec2Isabelle
  imports Complex_Main
begin

section \<open>Data model\<close>

text \<open>
  The realtime hook \<^verbatim>\<open>useRealtimeDocState\<close> keeps a document, two presence maps and a
  buffer of pending node updates. The declarations of \<^verbatim>\<open>CanvasNode\<close> and of the document
  live in \<^verbatim>\<open>types/canvas\<close>; the fields below are the ones the hook reads and writes.

  A node is an object with an \<^verbatim>\<open>id\<close> and freeform further properties. The hook never looks
  inside a property value, so the values are a type parameter.
\<close>

record 'v node =
  node_id :: string
  attrs :: "string \<rightharpoonup> 'v"

text \<open>
  \<^verbatim>\<open>Partial<CanvasNode>\<close>: every property is optional, the \<^verbatim>\<open>id\<close> too.
\<close>

record 'v props =
  props_id :: "string option"
  props_attrs :: "string \<rightharpoonup> 'v"

record edge =
  edge_id :: string
  fromNode :: string
  toNode :: string

record 'v doc =
  doc_id :: string
  title :: string
  userId :: "string option"
  backgroundColor :: string
  nodes :: "'v node list"
  edges :: "edge list"

record cursor =
  cursor_x :: real
  cursor_y :: real
  color :: string

text \<open>\<^verbatim>\<open>RealtimeAction\<close>, one constructor for each \<^verbatim>\<open>type\<close> tag of the switch in \<^verbatim>\<open>apply\<close>.\<close>

datatype 'v action =
    NodeCreate "'v node"
  | NodeUpdate string "'v props"
  | NodeDelete string
  | EdgeCreate edge
  | EdgeDelete string string
  | SpaceBackground string
  | SpaceTitle string
  | CursorMove real real string
  | NodeSelect "string list" string

text \<open>
  The state the reducer works on: the document of \<^verbatim>\<open>useDocState\<close>, the \<^verbatim>\<open>cursors\<close> and
  \<^verbatim>\<open>selections\<close> records keyed by sender, and the \<^verbatim>\<open>pendingUpdates\<close> ref keyed by node id.
  The three records are plain objects read with \<^verbatim>\<open>record[key]\<close>. The maps stand for them
  on the keys that a plain object does not inherit (see \<open>Object_prototype_keys\<close> below): on
  those a key that was never written reads as absent.
\<close>

record 'v state =
  doc :: "'v doc"
  cursors :: "string \<rightharpoonup> cursor"
  selections :: "string \<rightharpoonup> string list"
  pendingUpdates :: "string \<rightharpoonup> 'v props"

section \<open>The reducer\<close>

text \<open>
  \<^verbatim>\<open>Object.assign(node, props)\<close> copies every own property of \<^verbatim>\<open>props\<close> onto the node;
  a property that \<^verbatim>\<open>props\<close> does not have keeps its value.
\<close>

definition assign_node :: "'v node \<Rightarrow> 'v props \<Rightarrow> 'v node" where
  "assign_node n p =
     n\<lparr>node_id := (case props_id p of None \<Rightarrow> node_id n | Some i \<Rightarrow> i),
       attrs := attrs n ++ props_attrs p\<rparr>"

text \<open>\<^verbatim>\<open>Object.assign(pending, action.props)\<close>, on two partial nodes.\<close>

definition assign_props :: "'v props \<Rightarrow> 'v props \<Rightarrow> 'v props" where
  "assign_props q p =
     q\<lparr>props_id := (case props_id p of None \<Rightarrow> props_id q | Some i \<Rightarrow> Some i),
       props_attrs := props_attrs q ++ props_attrs p\<rparr>"

text \<open>The empty object literal \<^verbatim>\<open>{}\<close> that starts a fragment.\<close>

definition empty_props :: "'v props" where
  "empty_props = \<lparr>props_id = None, props_attrs = Map.empty\<rparr>"

text \<open>
  \<^verbatim>\<open>const node = ns.find((n) => n.id === i); if (node) Object.assign(node, p)\<close>:
  \<^verbatim>\<open>find\<close> returns the first element with that id and the assignment mutates that object in
  place, so the array afterwards differs from the one before in that one position. Every entry
  of the array is an object of its own (each comes from a separately delivered action).
\<close>

fun assign_found :: "string \<Rightarrow> 'v props \<Rightarrow> 'v node list \<Rightarrow> 'v node list" where
  "assign_found i p [] = []"
| "assign_found i p (n # ns) =
     (if node_id n = i then assign_node n p # ns else n # assign_found i p ns)"

text \<open>
  \<^verbatim>\<open>apply(action, sender)\<close> does not change the document itself. It hands a function of the
  previous value to \<^verbatim>\<open>setDoc\<close>, \<^verbatim>\<open>setCursors\<close> or \<^verbatim>\<open>setSelections\<close>, and React runs the
  functions it has been handed, in the order of the calls, when it next renders the component.
  (\<^verbatim>\<open>setCursors\<close> and \<^verbatim>\<open>setSelections\<close> come from \<^verbatim>\<open>useState\<close> in the hook; \<^verbatim>\<open>setDoc\<close>
  comes from \<^verbatim>\<open>useDocState\<close> and is used as a state setter of the same kind.)
  \<open>updater\<close> is what the functions handed over for one action do when they run. The
  functions for \<^verbatim>\<open>node:create\<close> and \<^verbatim>\<open>node:update\<close> read and write the
  \<^verbatim>\<open>pendingUpdates\<close> ref from inside; the one for \<^verbatim>\<open>node:delete\<close> only filters the document.

  In \<^verbatim>\<open>node:create\<close> the node of the action is the last entry of \<^verbatim>\<open>newDoc.nodes\<close>
  (\<^verbatim>\<open>concat\<close> does not copy it), and \<^verbatim>\<open>delete pendingUpdates.current[action.node.id]\<close> comes
  after \<^verbatim>\<open>Object.assign\<close>: the key it deletes is the id that entry has by then.
\<close>

fun updater :: "('v, 'z) state_scheme \<Rightarrow> 'v action \<Rightarrow> string \<Rightarrow> ('v, 'z) state_scheme" where
  "updater s (NodeCreate node) sender =
     (let d = doc s;
          newNodes = nodes d @ [node]
      in case pendingUpdates s (node_id node) of
           Some pending \<Rightarrow>
             (let assigned = assign_found (node_id node) pending newNodes
              in s\<lparr>doc := d\<lparr>nodes := assigned\<rparr>,
                   pendingUpdates := (pendingUpdates s)(node_id (last assigned) := None)\<rparr>)
         | None \<Rightarrow> s\<lparr>doc := d\<lparr>nodes := newNodes\<rparr>\<rparr>)"
| "updater s (NodeUpdate i p) sender =
     (let d = doc s
      in case find (\<lambda>n. node_id n = i) (nodes d) of
           Some node \<Rightarrow> s\<lparr>doc := d\<lparr>nodes := assign_found i p (nodes d)\<rparr>\<rparr>
         | None \<Rightarrow>
             (let pending = (case pendingUpdates s i of Some q \<Rightarrow> q | None \<Rightarrow> empty_props)
              in s\<lparr>pendingUpdates := (pendingUpdates s)(i \<mapsto> assign_props pending p)\<rparr>))"
| "updater s (NodeDelete i) sender =
     (let d = doc s
      in s\<lparr>doc := d\<lparr>nodes := filter (\<lambda>n. node_id n \<noteq> i) (nodes d),
                     edges := filter (\<lambda>e. fromNode e \<noteq> i \<and> toNode e \<noteq> i) (edges d)\<rparr>\<rparr>)"
| "updater s (EdgeCreate e) sender =
     (let d = doc s in s\<lparr>doc := d\<lparr>edges := edges d @ [e]\<rparr>\<rparr>)"
| "updater s (EdgeDelete from to) sender =
     (let d = doc s
      in s\<lparr>doc := d\<lparr>edges := filter (\<lambda>e. \<not> (fromNode e = from \<and> toNode e = to)) (edges d)\<rparr>\<rparr>)"
| "updater s (SpaceBackground c) sender =
     (let d = doc s in s\<lparr>doc := d\<lparr>backgroundColor := c\<rparr>\<rparr>)"
| "updater s (SpaceTitle t) sender =
     (let d = doc s in s\<lparr>doc := d\<lparr>title := t\<rparr>\<rparr>)"
| "updater s (CursorMove x y c) sender =
     s\<lparr>cursors := (cursors s)(sender \<mapsto> \<lparr>cursor_x = x, cursor_y = y, color = c\<rparr>)\<rparr>"
| "updater s (NodeSelect ids c) sender =
     (let cs = cursors s
      in s\<lparr>selections := (selections s)(sender \<mapsto> ids),
           cursors := cs(sender \<mapsto>
             \<lparr>cursor_x = (case cs sender of Some k \<Rightarrow> cursor_x k | None \<Rightarrow> 0),
              cursor_y = (case cs sender of Some k \<Rightarrow> cursor_y k | None \<Rightarrow> 0),
              color = c\<rparr>)\<rparr>)"

text \<open>
  The one statement of \<^verbatim>\<open>apply\<close> that touches the ref outside an updater:
  \<^verbatim>\<open>delete pendingUpdates.current[action.id]\<close> after the \<^verbatim>\<open>setDoc\<close> of \<^verbatim>\<open>node:delete\<close>.
  It runs during the call.
\<close>

fun apply_now :: "('v, 'z) state_scheme \<Rightarrow> 'v action \<Rightarrow> ('v, 'z) state_scheme" where
  "apply_now s (NodeDelete i) = s\<lparr>pendingUpdates := (pendingUpdates s)(i := None)\<rparr>"
| "apply_now s a = s"

text \<open>
  \<^verbatim>\<open>apply(action, sender)\<close> called while no updater is waiting, together with the render
  that follows it: the statement that runs during the call, then the updater of the action.
\<close>

definition apply_action ::
  "('v, 'z) state_scheme \<Rightarrow> 'v action \<Rightarrow> string \<Rightarrow> ('v, 'z) state_scheme" where
  [simp]: "apply_action s a sender = updater (apply_now s a) a sender"

text \<open>
  The component with the updaters that wait for the next render. An updater is kept as the
  action and sender its closure holds. The three state hooks are rendered together, and their
  updaters touch different fields, so one queue in the order of the calls stands for the three.
\<close>

record 'v client = "'v state" +
  queue :: "('v action \<times> string) list"

text \<open>The call \<^verbatim>\<open>apply(action, sender)\<close> itself: it queues the updater and runs \<open>apply_now\<close>.\<close>

definition apply_call ::
  "('v, 'z) client_scheme \<Rightarrow> 'v action \<Rightarrow> string \<Rightarrow> ('v, 'z) client_scheme" where
  "apply_call c a sender = apply_now (c\<lparr>queue := queue c @ [(a, sender)]\<rparr>) a"

text \<open>React renders: the waiting updaters run in the order they were queued.\<close>

fun run_updaters ::
  "('v, 'z) state_scheme \<Rightarrow> ('v action \<times> string) list \<Rightarrow> ('v, 'z) state_scheme" where
  "run_updaters s [] = s"
| "run_updaters s ((a, sender) # q) = run_updaters (updater s a sender) q"

definition render :: "('v, 'z) client_scheme \<Rightarrow> ('v, 'z) client_scheme" where
  "render c = (run_updaters c (queue c))\<lparr>queue := []\<rparr>"

text \<open>
  What happens to a client over time: the channel delivers an action and calls \<^verbatim>\<open>apply\<close>,
  or React renders. When React renders between two deliveries is not in the hands of the hook.
\<close>

datatype 'v event = Apply "'v action" string | Render

fun step :: "('v, 'z) client_scheme \<Rightarrow> 'v event \<Rightarrow> ('v, 'z) client_scheme" where
  "step c (Apply a sender) = apply_call c a sender"
| "step c Render = render c"

fun run :: "('v, 'z) client_scheme \<Rightarrow> 'v event list \<Rightarrow> ('v, 'z) client_scheme" where
  "run c [] = c"
| "run c (e # es) = run (step c e) es"

text \<open>The actions of a run, with their senders, in the order of delivery.\<close>

fun actions_of :: "'v event list \<Rightarrow> ('v action \<times> string) list" where
  "actions_of [] = []"
| "actions_of (Apply a sender # es) = (a, sender) # actions_of es"
| "actions_of (Render # es) = actions_of es"

text \<open>
  The names every plain object inherits from \<^verbatim>\<open>Object.prototype\<close>. \<^verbatim>\<open>record[key]\<close> with one
  of them as the key finds the inherited value whatever has been written to the record, so the
  maps of the state are the records only for other keys.
\<close>

definition Object_prototype_keys :: "string list" where
  "Object_prototype_keys =
     [''__proto__'', ''constructor'', ''hasOwnProperty'', ''isPrototypeOf'',
      ''propertyIsEnumerable'', ''toLocaleString'', ''toString'', ''valueOf'',
      ''__defineGetter__'', ''__defineSetter__'', ''__lookupGetter__'', ''__lookupSetter__'']"

section \<open>Local edits, send gating and the room\<close>

text \<open>
  The repository carries the hook in two revisions with the same reducer. The one without
  sessions passes \<^verbatim>\<open>doc.id\<close> to \<^verbatim>\<open>useRealtimeChannel\<close> and hands every local action to
  \<^verbatim>\<open>send\<close>. The one with collaboration sessions has \<^verbatim>\<open>sessionToken\<close>, \<^verbatim>\<open>canSendRef\<close>,
  \<^verbatim>\<open>roomId\<close> and \<^verbatim>\<open>sendIfAllowed\<close>; its handlers are the ones modelled below.
\<close>

text \<open>
  The first argument of \<^verbatim>\<open>useRealtimeChannel(doc.id, { apply })\<close> in the revision without
  sessions.
\<close>

definition useRealtimeChannel_room :: "'v doc \<Rightarrow> string" where
  "useRealtimeChannel_room d = doc_id d"

text \<open>
  \<^verbatim>\<open>const roomId = sessionToken ? `${doc.id}:${sessionToken}` : ''\<close> in the revision with
  sessions. The empty string is the only falsy string.
\<close>

definition roomId :: "string \<Rightarrow> string \<Rightarrow> string" where
  "roomId docId token = (if token \<noteq> [] then docId @ '':'' @ token else [])"

text \<open>
  The hook's state next to the reducer's: \<^verbatim>\<open>userId\<close> of the signed-in session (the empty
  string when nobody is signed in), \<^verbatim>\<open>sessionToken\<close>, the \<^verbatim>\<open>canSendRef\<close> flag, the call
  that the debounced \<^verbatim>\<open>sendUpdate\<close> holds back, and \<open>sent\<close>, the actions handed to the
  transport's \<^verbatim>\<open>send\<close> so far. What the transport does with them is outside this hook.
\<close>

record 'v hook = "'v state" +
  session_userId :: string
  sessionToken :: string
  canSendRef :: bool
  sendUpdate_pending :: "(string \<times> 'v props) option"
  sent :: "'v action list"

text \<open>
  The effect \<^verbatim>\<open>canSendRef.current = !doc.userId || doc.userId === userId || !!sessionToken\<close>.
  A missing owner and the empty string are both falsy.
\<close>

definition canSend_effect :: "('v, 'z) hook_scheme \<Rightarrow> ('v, 'z) hook_scheme" where
  "canSend_effect h =
     h\<lparr>canSendRef :=
         (userId (doc h) = None \<or> userId (doc h) = Some [])
         \<or> userId (doc h) = Some (session_userId h)
         \<or> sessionToken h \<noteq> []\<rparr>"

definition sendIfAllowed :: "('v, 'z) hook_scheme \<Rightarrow> 'v action \<Rightarrow> ('v, 'z) hook_scheme" where
  "sendIfAllowed h a = (if canSendRef h then h\<lparr>sent := sent h @ [a]\<rparr> else h)"

text \<open>
  The gating condition in the words of the specification, to compare \<open>canSend_effect\<close>
  with: a client may broadcast when the document has no recorded owner, or the local identity
  is the owner, or a session token has been established.
\<close>

definition send_permitted :: "string option \<Rightarrow> string \<Rightarrow> string \<Rightarrow> bool" where
  "send_permitted owner identity token \<longleftrightarrow>
     owner = None \<or> owner = Some [] \<or> owner = Some identity \<or> token \<noteq> []"

text \<open>
  The operations of \<^verbatim>\<open>useDocState\<close> that the handlers call. That hook is a collaborator of
  this one; its operations are parameters here, each a function on the document.
  \<^verbatim>\<open>onNodeCreate\<close> also returns the node it made.
\<close>

record 'v doc_state =
  state_onNodeCreate :: "'v props \<Rightarrow> 'v doc \<Rightarrow> 'v node \<times> 'v doc"
  state_onNodeDelete :: "string \<Rightarrow> 'v doc \<Rightarrow> 'v doc"
  state_onNodeUpdate :: "string \<Rightarrow> 'v props \<Rightarrow> 'v doc \<Rightarrow> 'v doc"
  state_onDisconnect :: "string \<Rightarrow> string \<Rightarrow> 'v doc \<Rightarrow> 'v doc"
  state_onBackgroundColorChange :: "string \<Rightarrow> 'v doc \<Rightarrow> 'v doc"

text \<open>
  Modelled from the spec: \<^verbatim>\<open>onNodeDelete\<close> of \<^verbatim>\<open>useDocState\<close>, the store operation behind
  a local delete. The specification has local edits go through the same mutation as received
  ones, and has the deletion of a node remove every edge that references it, whether the
  delete originates locally or remotely.
\<close>

definition useDocState_onNodeDelete :: "string \<Rightarrow> 'v doc \<Rightarrow> 'v doc" where
  "useDocState_onNodeDelete i d =
     d\<lparr>nodes := filter (\<lambda>n. node_id n \<noteq> i) (nodes d),
       edges := filter (\<lambda>e. fromNode e \<noteq> i \<and> toNode e \<noteq> i) (edges d)\<rparr>"

definition onNodeCreate ::
  "'v doc_state \<Rightarrow> ('v, 'z) hook_scheme \<Rightarrow> 'v props \<Rightarrow> 'v node \<times> ('v, 'z) hook_scheme" where
  "onNodeCreate st h p =
     (case state_onNodeCreate st p (doc h) of
        (node, d) \<Rightarrow> (node, sendIfAllowed (h\<lparr>doc := d\<rparr>) (NodeCreate node)))"

definition onNodeDelete :: "'v doc_state \<Rightarrow> ('v, 'z) hook_scheme \<Rightarrow> string \<Rightarrow> ('v, 'z) hook_scheme" where
  "onNodeDelete st h i =
     sendIfAllowed (h\<lparr>doc := state_onNodeDelete st i (doc h)\<rparr>) (NodeDelete i)"

text \<open>
  Modelled from the spec: \<^verbatim>\<open>debounce\<close> of \<^verbatim>\<open>lib/utils\<close>, a trailing-edge debounce: a call
  replaces the call that is held back, and when the window has passed with no further call the
  last one runs. \<open>sendUpdate\<close> is the call, \<open>sendUpdate_fire\<close> the timer running out.
  The debounced function is built once, around the \<^verbatim>\<open>sendIfAllowed\<close> of the first render;
  \<^verbatim>\<open>canSendRef\<close> is a ref, so the flag it reads is the current one, and the model has a
  single \<^verbatim>\<open>send\<close>.
\<close>

definition sendUpdate :: "('v, 'z) hook_scheme \<Rightarrow> string \<Rightarrow> 'v props \<Rightarrow> ('v, 'z) hook_scheme" where
  "sendUpdate h i p = h\<lparr>sendUpdate_pending := Some (i, p)\<rparr>"

definition sendUpdate_fire :: "('v, 'z) hook_scheme \<Rightarrow> ('v, 'z) hook_scheme" where
  "sendUpdate_fire h =
     (case sendUpdate_pending h of
        None \<Rightarrow> h
      | Some (i, p) \<Rightarrow> sendIfAllowed (h\<lparr>sendUpdate_pending := None\<rparr>) (NodeUpdate i p))"

definition onNodeUpdate ::
  "'v doc_state \<Rightarrow> ('v, 'z) hook_scheme \<Rightarrow> string \<Rightarrow> 'v props \<Rightarrow> ('v, 'z) hook_scheme" where
  "onNodeUpdate st h i p = sendUpdate (h\<lparr>doc := state_onNodeUpdate st i p (doc h)\<rparr>) i p"

text \<open>\<^verbatim>\<open>onConnect\<close>; \<open>rid\<close> is the value \<^verbatim>\<open>randomId()\<close> returns.\<close>

definition onConnect :: "string \<Rightarrow> ('v, 'z) hook_scheme \<Rightarrow> string \<Rightarrow> string \<Rightarrow> ('v, 'z) hook_scheme" where
  "onConnect rid h from to =
     (let edge = \<lparr>edge_id = rid, fromNode = from, toNode = to\<rparr>;
          d = doc h
      in sendIfAllowed (h\<lparr>doc := d\<lparr>edges := edges d @ [edge]\<rparr>\<rparr>) (EdgeCreate edge))"

definition onDisconnect ::
  "'v doc_state \<Rightarrow> ('v, 'z) hook_scheme \<Rightarrow> string \<Rightarrow> string \<Rightarrow> ('v, 'z) hook_scheme" where
  "onDisconnect st h from to =
     sendIfAllowed (h\<lparr>doc := state_onDisconnect st from to (doc h)\<rparr>) (EdgeDelete from to)"

definition onBackgroundColorChange ::
  "'v doc_state \<Rightarrow> ('v, 'z) hook_scheme \<Rightarrow> string \<Rightarrow> ('v, 'z) hook_scheme" where
  "onBackgroundColorChange st h c =
     sendIfAllowed (h\<lparr>doc := state_onBackgroundColorChange st c (doc h)\<rparr>) (SpaceBackground c)"

definition onTitleChange :: "('v, 'z) hook_scheme \<Rightarrow> string \<Rightarrow> ('v, 'z) hook_scheme" where
  "onTitleChange h t =
     (let d = doc h in sendIfAllowed (h\<lparr>doc := d\<lparr>title := t\<rparr>\<rparr>) (SpaceTitle t))"

section \<open>Example inputs\<close>

text \<open>
  Concrete values for the examples below: a document \<open>d1\<close> owned by \<open>U1\<close> with no nodes
  and no edges, a fresh reducer state around it, the node, fragment and edge of the
  scenarios, and a viewer \<open>U2\<close> of that document who holds no session token.
\<close>

definition example_doc :: "real doc" where
  "example_doc =
     \<lparr>doc_id = ''d1'', title = ''Untitled'', userId = Some ''U1'', backgroundColor = ''white'',
      nodes = [], edges = []\<rparr>"

definition example_state :: "real state" where
  "example_state =
     \<lparr>doc = example_doc, cursors = Map.empty, selections = Map.empty,
      pendingUpdates = Map.empty\<rparr>"

definition node_n1 :: "real node" where
  "node_n1 = \<lparr>node_id = ''n1'', attrs = [''x'' \<mapsto> 0, ''y'' \<mapsto> 0]\<rparr>"

definition props_x5 :: "real props" where
  "props_x5 = \<lparr>props_id = None, props_attrs = [''x'' \<mapsto> 5]\<rparr>"

definition props_rename :: "real props" where
  "props_rename = \<lparr>props_id = Some ''n2'', props_attrs = Map.empty\<rparr>"

definition edge_e1 :: edge where
  "edge_e1 = \<lparr>edge_id = ''e1'', fromNode = ''n1'', toNode = ''n2''\<rparr>"

definition edge_e2 :: edge where
  "edge_e2 = \<lparr>edge_id = ''e2'', fromNode = ''n1'', toNode = ''n2''\<rparr>"

definition edge_e3 :: edge where
  "edge_e3 = \<lparr>edge_id = ''e3'', fromNode = ''n2'', toNode = ''n1''\<rparr>"

definition example_hook :: "real hook" where
  "example_hook =
     \<lparr>doc = example_doc, cursors = Map.empty, selections = Map.empty,
      pendingUpdates = Map.empty,
      session_userId = ''U2'', sessionToken = [], canSendRef = True,
      sendUpdate_pending = None, sent = []\<rparr>"

text \<open>
  The same fresh state as a client with no updater waiting, and a fragment that carries an
  \<^verbatim>\<open>id\<close> of its own next to \<^verbatim>\<open>x\<close>.
\<close>

definition example_client :: "real client" where
  "example_client =
     \<lparr>doc = example_doc, cursors = Map.empty, selections = Map.empty,
      pendingUpdates = Map.empty, queue = []\<rparr>"

definition props_n2_x5 :: "real props" where
  "props_n2_x5 = \<lparr>props_id = Some ''n2'', props_attrs = [''x'' \<mapsto> 5]\<rparr>"

text \<open>The fresh state with node \<open>n1\<close> on the board.\<close>

definition example_state_n1 :: "real state" where
  "example_state_n1 = example_state\<lparr>doc := example_doc\<lparr>nodes := [node_n1]\<rparr>\<rparr>"

text \<open>
  The state after \<^verbatim>\<open>edge:create\<close> for \<open>e1\<close> has arrived ahead of the nodes it joins:
  an edge from \<open>n1\<close> to \<open>n2\<close> and no node.
\<close>

definition example_state_e1 :: "real state" where
  "example_state_e1 = example_state\<lparr>doc := example_doc\<lparr>edges := [edge_e1]\<rparr>\<rparr>"

text \<open>A document store for the examples: it edits the document the way the reducer does.\<close>

definition example_doc_state :: "real doc_state" where
  "example_doc_state =
     \<lparr>state_onNodeCreate =
        (\<lambda>p d. let n = assign_node \<lparr>node_id = ''fresh'', attrs = Map.empty\<rparr> p
               in (n, d\<lparr>nodes := nodes d @ [n]\<rparr>)),
      state_onNodeDelete =
        (\<lambda>i d. d\<lparr>nodes := filter (\<lambda>n. node_id n \<noteq> i) (nodes d),
                  edges := filter (\<lambda>e. fromNode e \<noteq> i \<and> toNode e \<noteq> i) (edges d)\<rparr>),
      state_onNodeUpdate = (\<lambda>i p d. d\<lparr>nodes := assign_found i p (nodes d)\<rparr>),
      state_onDisconnect =
        (\<lambda>from to d.
           d\<lparr>edges := filter (\<lambda>e. \<not> (fromNode e = from \<and> toNode e = to)) (edges d)\<rparr>),
      state_onBackgroundColorChange = (\<lambda>c d. d\<lparr>backgroundColor := c\<rparr>)\<rparr>"

section \<open>Facts about the helpers\<close>

lemma map_add_twice: "m ++ p ++ p = m ++ p"
  by (simp add: map_add_def fun_eq_iff split: option.splits)

lemma assign_node_twice:
  "props_id p = None \<or> props_id p = Some (node_id n) \<Longrightarrow>
   assign_node (assign_node n p) p = assign_node n p"
  by (auto simp: assign_node_def map_add_twice)

lemma assign_node_keeps_id:
  "props_id p = None \<or> props_id p = Some (node_id n) \<Longrightarrow> node_id (assign_node n p) = node_id n"
  by (auto simp: assign_node_def)

lemma assign_props_twice: "assign_props (assign_props q p) p = assign_props q p"
  by (auto simp: assign_props_def map_add_twice split: option.splits)

lemma assign_props_field:
  "props_attrs (assign_props q p) k =
     (case props_attrs p k of Some v \<Rightarrow> Some v | None \<Rightarrow> props_attrs q k)"
  by (simp add: assign_props_def map_add_def)

lemma assign_found_twice:
  "props_id p = None \<or> props_id p = Some i \<Longrightarrow>
   assign_found i p (assign_found i p ns) = assign_found i p ns"
  by (induction ns) (auto simp: assign_node_twice assign_node_keeps_id)

lemma find_assign_found:
  "props_id p = None \<or> props_id p = Some i \<Longrightarrow>
   find (\<lambda>n. node_id n = i) (assign_found i p ns) =
   map_option (\<lambda>n. assign_node n p) (find (\<lambda>n. node_id n = i) ns)"
  by (induction ns) (auto simp: assign_node_keeps_id)

lemma assign_found_fresh:
  "\<forall>m\<in>set ns. node_id m \<noteq> node_id n \<Longrightarrow>
   assign_found (node_id n) p (ns @ [n]) = ns @ [assign_node n p]"
  by (induction ns) auto

lemma length_assign_found: "length (assign_found i p ns) = length ns"
  by (induction ns) auto

lemma find_absent: "\<forall>m\<in>set ns. node_id m \<noteq> i \<Longrightarrow> find (\<lambda>n. node_id n = i) ns = None"
  by (simp add: find_None_iff)

lemma props_id_assign_props:
  "props_id (assign_props q p) = (case props_id p of None \<Rightarrow> props_id q | Some i \<Rightarrow> Some i)"
  by (simp add: assign_props_def)

text \<open>
  An updater leaves the queue field alone, a statement that runs during the call too, and an
  action other than \<^verbatim>\<open>node:delete\<close> has no such statement.
\<close>

lemma updater_queue: "updater (c\<lparr>queue := q\<rparr>) a sd = (updater c a sd)\<lparr>queue := q\<rparr>"
  by (cases a) (simp_all add: Let_def split: option.splits)

lemma apply_now_queue: "apply_now (c\<lparr>queue := q\<rparr>) a = (apply_now c a)\<lparr>queue := q\<rparr>"
  by (cases a) simp_all

lemma apply_now_other: "a \<notin> range NodeDelete \<Longrightarrow> apply_now s a = s"
  by (cases a) auto

lemma run_updaters_queue: "run_updaters (c\<lparr>queue := q\<rparr>) l = (run_updaters c l)\<lparr>queue := q\<rparr>"
proof (induction l arbitrary: c)
  case Nil
  show ?case by simp
next
  case (Cons x l)
  obtain a sd where x: "x = (a, sd)" by (cases x)
  show ?case unfolding x by (simp add: updater_queue Cons.IH)
qed

lemma run_updaters_append: "run_updaters s (l @ l') = run_updaters (run_updaters s l) l'"
proof (induction l arbitrary: s)
  case Nil
  show ?case by simp
next
  case (Cons x l)
  obtain a sd where x: "x = (a, sd)" by (cases x)
  show ?case unfolding x by (simp add: Cons.IH)
qed

text \<open>
  With no updater waiting, the call and the render after it are one step of \<open>apply_action\<close>.
\<close>

lemma render_apply_call:
  "queue c = [] \<Longrightarrow> render (apply_call c a sd) = (apply_action c a sd)\<lparr>queue := []\<rparr>"
  by (simp add: render_def apply_call_def apply_now_queue updater_queue)

text \<open>
  Only the statement of \<^verbatim>\<open>node:delete\<close> that runs during the call makes the time of a
  render matter: a run that delivers no \<^verbatim>\<open>node:delete\<close> ends, once React has rendered, in
  the state that the updaters of its actions give in the order of delivery, wherever the
  renders in between fell.
\<close>

lemma render_run_without_delete:
  "\<forall>x\<in>set (actions_of es). fst x \<notin> range NodeDelete \<Longrightarrow>
   render (run c es) = (run_updaters c (queue c @ actions_of es))\<lparr>queue := []\<rparr>"
proof (induction es arbitrary: c)
  case Nil
  show ?case by (simp add: render_def)
next
  case (Cons e es)
  show ?case
  proof (cases e)
    case (Apply a sd)
    with Cons.prems have nd: "a \<notin> range NodeDelete"
      and rest: "\<forall>x\<in>set (actions_of es). fst x \<notin> range NodeDelete"
      by simp_all
    have call: "apply_call c a sd = c\<lparr>queue := queue c @ [(a, sd)]\<rparr>"
      by (simp add: apply_call_def apply_now_other[OF nd])
    show ?thesis
      unfolding Apply run.simps step.simps call
      by (simp add: Cons.IH[OF rest] run_updaters_queue)
  next
    case Render
    with Cons.prems have rest: "\<forall>x\<in>set (actions_of es). fst x \<notin> range NodeDelete"
      by simp
    have "render (run (render c) es) =
        (run_updaters (render c) (queue (render c) @ actions_of es))\<lparr>queue := []\<rparr>"
      by (rule Cons.IH[OF rest])
    also have "\<dots> = (run_updaters c (queue c @ actions_of es))\<lparr>queue := []\<rparr>"
      by (simp add: render_def run_updaters_queue run_updaters_append)
    finally show ?thesis
      unfolding Render by simp
  qed
qed

lemma canSendRef_effect:
  "canSendRef (canSend_effect h) =
     send_permitted (userId (doc h)) (session_userId h) (sessionToken h)"
  by (simp add: canSend_effect_def send_permitted_def)

lemma canSend_effect_fields:
  "doc (canSend_effect h) = doc h" "sent (canSend_effect h) = sent h"
  by (simp_all add: canSend_effect_def)

lemma sendIfAllowed_fields:
  "doc (sendIfAllowed h a) = doc h"
  "sent (sendIfAllowed h a) = (if canSendRef h then sent h @ [a] else sent h)"
  by (simp_all add: sendIfAllowed_def)

section \<open>Convergence of the reducer\<close>

text \<open>
  C1. Convergence asks that two clients that apply the same ordered sequence of actions end
  with equal documents. The hook does not give this. The buffer write of \<^verbatim>\<open>node:update\<close>
  waits in the queue until React renders, while \<^verbatim>\<open>node:delete\<close> deletes from the buffer
  during the call, so a delete that is delivered before the render comes too early to discard
  the fragment. Two clients on the empty document receive the update \<^verbatim>\<open>{x:5}\<close> for \<open>n1\<close>,
  the delete of \<open>n1\<close> and the creation of \<open>n1\<close> with \<open>x\<close> at 0, in this order. For the
  first React renders once, after the three calls, and \<open>n1\<close> ends with \<open>x\<close> at 5; for the
  second React renders after each call, and \<open>n1\<close> ends with \<open>x\<close> at 0.
\<close>

theorem render_timing_changes_document:
  "actions_of [Apply (NodeUpdate ''n1'' props_x5) ''U1'', Apply (NodeDelete ''n1'') ''U1'',
               Apply (NodeCreate node_n1) ''U1'', Render]
     = actions_of [Apply (NodeUpdate ''n1'' props_x5) ''U1'', Render,
                   Apply (NodeDelete ''n1'') ''U1'', Render,
                   Apply (NodeCreate node_n1) ''U1'', Render]
   \<and> map (\<lambda>m. attrs m ''x'')
        (nodes (doc (run example_client
           [Apply (NodeUpdate ''n1'' props_x5) ''U1'', Apply (NodeDelete ''n1'') ''U1'',
            Apply (NodeCreate node_n1) ''U1'', Render]))) = [Some 5]
   \<and> map (\<lambda>m. attrs m ''x'')
        (nodes (doc (run example_client
           [Apply (NodeUpdate ''n1'' props_x5) ''U1'', Render,
            Apply (NodeDelete ''n1'') ''U1'', Render,
            Apply (NodeCreate node_n1) ''U1'', Render]))) = [Some 0]"
  by (simp add: example_client_def example_doc_def node_n1_def props_x5_def
      apply_call_def render_def assign_node_def assign_props_def empty_props_def)

section \<open>The buffer of pending updates\<close>

text \<open>
  A fragment may carry an \<^verbatim>\<open>id\<close>. The update \<^verbatim>\<open>{id:"n2",x:5}\<close> for \<open>n1\<close> is buffered
  under \<open>n1\<close>; the creation of \<open>n1\<close> assigns it onto the new node, which is then called
  \<open>n2\<close>, and deletes the buffer entry of \<open>n2\<close>. The fragment stays in the buffer under
  \<open>n1\<close>.
\<close>

theorem fragment_with_id_counterexample:
  "nodes (doc example_client) = []
   \<and> queue example_client = []
   \<and> pendingUpdates
        (run example_client
           [Apply (NodeUpdate ''n1'' props_n2_x5) ''U1'', Render,
            Apply (NodeCreate node_n1) ''U1'', Render]) ''n1'' = Some props_n2_x5"
  by (simp add: example_client_def example_doc_def node_n1_def props_n2_x5_def
      apply_call_def render_def assign_node_def assign_props_def empty_props_def)

text \<open>
  C2, amended. Take a client with no updater waiting and no node \<open>n\<close> in its document,
  \<open>n\<close> not being a name that plain objects inherit, and properties that carry no \<^verbatim>\<open>id\<close>
  other than \<open>n\<close>, as does the fragment already buffered for \<open>n\<close> if there is one. When
  the updater of \<^verbatim>\<open>node:update\<close> for \<open>n\<close> has run, the document is as it was and the buffer
  holds under \<open>n\<close> the properties on top of the earlier fragment, the newer value winning
  field by field. After \<^verbatim>\<open>node:create\<close> for \<open>n\<close> the node is appended with the fragment
  assigned onto it and the buffer has nothing for \<open>n\<close>, whether or not React rendered
  between the update and the create.
\<close>

theorem pending_update_resolution:
  fixes c :: "('v, 'z) client_scheme"
  assumes idle: "queue c = []"
    and absent: "\<forall>m\<in>set (nodes (doc c)). node_id m \<noteq> n"
    and nid: "node_id node = n"
    and key: "n \<notin> set Object_prototype_keys"
    and pid: "props_id p = None \<or> props_id p = Some n"
    and old: "\<forall>q. pendingUpdates c n = Some q \<longrightarrow> props_id q = None \<or> props_id q = Some n"
    and frag: "fragment =
      assign_props (case pendingUpdates c n of Some q \<Rightarrow> q | None \<Rightarrow> empty_props) p"
  shows
    "doc (run c [Apply (NodeUpdate n p) sender, Render]) = doc c
     \<and> pendingUpdates (run c [Apply (NodeUpdate n p) sender, Render]) =
         (pendingUpdates c)(n \<mapsto> fragment)
     \<and> (\<forall>k. props_attrs fragment k =
           (case props_attrs p k of
              Some v \<Rightarrow> Some v
            | None \<Rightarrow>
                props_attrs (case pendingUpdates c n of Some q \<Rightarrow> q | None \<Rightarrow> empty_props) k))
     \<and> nodes (doc (run c [Apply (NodeUpdate n p) sender, Apply (NodeCreate node) sender', Render])) =
         nodes (doc c) @ [assign_node node fragment]
     \<and> pendingUpdates
         (run c [Apply (NodeUpdate n p) sender, Apply (NodeCreate node) sender', Render]) n = None
     \<and> run c [Apply (NodeUpdate n p) sender, Render, Apply (NodeCreate node) sender', Render] =
         run c [Apply (NodeUpdate n p) sender, Apply (NodeCreate node) sender', Render]"
proof -
  from absent have nf: "find (\<lambda>m. node_id m = n) (nodes (doc c)) = None"
    by (rule find_absent)
  from absent nid have "\<forall>m\<in>set (nodes (doc c)). node_id m \<noteq> node_id node"
    by simp
  then have fresh: "assign_found (node_id node) q (nodes (doc c) @ [node]) =
      nodes (doc c) @ [assign_node node q]" for q
    by (rule assign_found_fresh)
  have "props_id fragment = None \<or> props_id fragment = Some n"
    unfolding frag using pid old
    by (auto simp: props_id_assign_props empty_props_def split: option.splits)
  with nid have same: "node_id (assign_node node fragment) = n"
    by (simp add: assign_node_keeps_id)
  have u: "run c [Apply (NodeUpdate n p) sender, Render] =
      c\<lparr>pendingUpdates := (pendingUpdates c)(n \<mapsto> fragment)\<rparr>"
    using nf idle by (simp add: apply_call_def render_def frag)
  have uc: "run c [Apply (NodeUpdate n p) sender, Apply (NodeCreate node) sender', Render] =
      c\<lparr>doc := (doc c)\<lparr>nodes := nodes (doc c) @ [assign_node node fragment]\<rparr>,
        pendingUpdates := (pendingUpdates c)(n := None)\<rparr>"
    using nf idle nid fresh same
    by (simp add: apply_call_def render_def Let_def frag[symmetric])
  have urc: "run c [Apply (NodeUpdate n p) sender, Render, Apply (NodeCreate node) sender', Render] =
      c\<lparr>doc := (doc c)\<lparr>nodes := nodes (doc c) @ [assign_node node fragment]\<rparr>,
        pendingUpdates := (pendingUpdates c)(n := None)\<rparr>"
    using nf idle nid fresh same
    by (simp add: apply_call_def render_def Let_def frag[symmetric])
  have lww: "\<forall>k. props_attrs fragment k =
           (case props_attrs p k of
              Some v \<Rightarrow> Some v
            | None \<Rightarrow>
                props_attrs (case pendingUpdates c n of Some q \<Rightarrow> q | None \<Rightarrow> empty_props) k)"
    unfolding frag by (simp add: assign_props_field)
  show ?thesis
    unfolding u uc urc using lww by simp
qed

text \<open>
  The scenario of the specification: \<^verbatim>\<open>node:update{id:"n1",props:{x:5}}\<close> arrives on the
  empty document, then \<^verbatim>\<open>node:create{node:{id:"n1",x:0,y:0}}\<close>. The document then has the
  one node \<open>n1\<close>, with \<open>x\<close> equal to 5, and the buffer holds nothing for \<open>n1\<close>.
\<close>

theorem pending_update_resolution_witness:
  "queue example_client = []
   \<and> nodes (doc example_client) = []
   \<and> node_id node_n1 = ''n1''
   \<and> ''n1'' \<notin> set Object_prototype_keys
   \<and> props_id props_x5 = None
   \<and> pendingUpdates example_client ''n1'' = None
   \<and> doc (run example_client [Apply (NodeUpdate ''n1'' props_x5) ''U1'', Render]) = doc example_client
   \<and> pendingUpdates (run example_client [Apply (NodeUpdate ''n1'' props_x5) ''U1'', Render]) ''n1''
       = Some props_x5
   \<and> map node_id (nodes (doc (run example_client
        [Apply (NodeUpdate ''n1'' props_x5) ''U1'', Apply (NodeCreate node_n1) ''U1'', Render])))
       = [''n1'']
   \<and> map (\<lambda>m. attrs m ''x'') (nodes (doc (run example_client
        [Apply (NodeUpdate ''n1'' props_x5) ''U1'', Apply (NodeCreate node_n1) ''U1'', Render])))
       = [Some 5]
   \<and> pendingUpdates (run example_client
        [Apply (NodeUpdate ''n1'' props_x5) ''U1'', Apply (NodeCreate node_n1) ''U1'', Render]) ''n1''
       = None"
  using pending_update_resolution[of example_client "''n1''" node_n1 props_x5
      "assign_props empty_props props_x5" "''U1''" "''U1''"]
  by (simp add: example_client_def example_doc_def node_n1_def props_x5_def
      Object_prototype_keys_def assign_node_def assign_props_def empty_props_def)




section \<open>Deleting nodes and edges\<close>

text \<open>
  C4. Whenever React runs the updater of \<^verbatim>\<open>node:delete\<close> for \<open>n\<close>, it keeps exactly the
  nodes whose id is not \<open>n\<close> and exactly the edges that neither start nor end at \<open>n\<close>, in
  their order, and leaves the other fields of the document alone; the sender plays no part.
  A local delete goes through \<^verbatim>\<open>onNodeDelete\<close> to the store; with the store operation of the
  specification it gives the same document as the received action.
\<close>

theorem cascade_delete:
  "doc (updater s (NodeDelete n) sender) = useDocState_onNodeDelete n (doc s)
   \<and> nodes (doc (apply_action s (NodeDelete n) sender)) =
     filter (\<lambda>m. node_id m \<noteq> n) (nodes (doc s))
   \<and> edges (doc (apply_action s (NodeDelete n) sender)) =
     filter (\<lambda>e. fromNode e \<noteq> n \<and> toNode e \<noteq> n) (edges (doc s))
   \<and> (\<forall>m\<in>set (nodes (doc (apply_action s (NodeDelete n) sender))). node_id m \<noteq> n)
   \<and> (\<forall>e\<in>set (edges (doc (apply_action s (NodeDelete n) sender))).
        fromNode e \<noteq> n \<and> toNode e \<noteq> n)
   \<and> doc_id (doc (apply_action s (NodeDelete n) sender)) = doc_id (doc s)
   \<and> title (doc (apply_action s (NodeDelete n) sender)) = title (doc s)
   \<and> userId (doc (apply_action s (NodeDelete n) sender)) = userId (doc s)
   \<and> backgroundColor (doc (apply_action s (NodeDelete n) sender)) = backgroundColor (doc s)
   \<and> apply_action s (NodeDelete n) sender = apply_action s (NodeDelete n) sender'
   \<and> (state_onNodeDelete st = useDocState_onNodeDelete \<longrightarrow>
        nodes (doc (onNodeDelete st h n)) = filter (\<lambda>m. node_id m \<noteq> n) (nodes (doc h))
        \<and> edges (doc (onNodeDelete st h n)) =
            filter (\<lambda>e. fromNode e \<noteq> n \<and> toNode e \<noteq> n) (edges (doc h))
        \<and> (doc h = doc s \<longrightarrow>
             doc (onNodeDelete st h n) = doc (apply_action s (NodeDelete n) sender)))"
proof -
  have received: "doc (updater t (NodeDelete n) sd) = useDocState_onNodeDelete n (doc t)"
    for t :: "('a, 'b) state_scheme" and sd
    by (simp add: Let_def useDocState_onNodeDelete_def)
  have at_call: "doc (apply_action s (NodeDelete n) sd) = useDocState_onNodeDelete n (doc s)" for sd
    by (simp add: Let_def useDocState_onNodeDelete_def)
  have same_sender: "apply_action s (NodeDelete n) sender = apply_action s (NodeDelete n) sender'"
    by simp
  have local_call: "doc (onNodeDelete st h n) = useDocState_onNodeDelete n (doc h)"
    if "state_onNodeDelete st = useDocState_onNodeDelete"
    using that by (simp add: onNodeDelete_def sendIfAllowed_fields)
  show ?thesis
    using received[of s sender] same_sender local_call
    unfolding at_call
    by (auto simp: useDocState_onNodeDelete_def)
qed

text \<open>
  Nodes \<open>n1\<close> and \<open>n2\<close>, an edge each way between them and a loop on \<open>n2\<close>: deleting
  \<open>n1\<close> leaves \<open>n2\<close> and the loop, for the received action and for the local call on the
  example store.
\<close>

theorem cascade_delete_witness:
  "state_onNodeDelete example_doc_state = useDocState_onNodeDelete
   \<and> nodes (doc (apply_action
      (example_state
         \<lparr>doc := example_doc
            \<lparr>nodes := [node_n1, node_n1\<lparr>node_id := ''n2''\<rparr>],
             edges := [edge_e1, edge_e3, \<lparr>edge_id = ''e4'', fromNode = ''n2'', toNode = ''n2''\<rparr>]\<rparr>\<rparr>)
      (NodeDelete ''n1'') ''U1'')) = [node_n1\<lparr>node_id := ''n2''\<rparr>]
   \<and> edges (doc (apply_action
      (example_state
         \<lparr>doc := example_doc
            \<lparr>nodes := [node_n1, node_n1\<lparr>node_id := ''n2''\<rparr>],
             edges := [edge_e1, edge_e3, \<lparr>edge_id = ''e4'', fromNode = ''n2'', toNode = ''n2''\<rparr>]\<rparr>\<rparr>)
      (NodeDelete ''n1'') ''U1'')) = [\<lparr>edge_id = ''e4'', fromNode = ''n2'', toNode = ''n2''\<rparr>]
   \<and> nodes (doc (onNodeDelete example_doc_state
      (example_hook
         \<lparr>doc := example_doc
            \<lparr>nodes := [node_n1, node_n1\<lparr>node_id := ''n2''\<rparr>],
             edges := [edge_e1, edge_e3, \<lparr>edge_id = ''e4'', fromNode = ''n2'', toNode = ''n2''\<rparr>]\<rparr>\<rparr>)
      ''n1'')) = [node_n1\<lparr>node_id := ''n2''\<rparr>]
   \<and> edges (doc (onNodeDelete example_doc_state
      (example_hook
         \<lparr>doc := example_doc
            \<lparr>nodes := [node_n1, node_n1\<lparr>node_id := ''n2''\<rparr>],
             edges := [edge_e1, edge_e3, \<lparr>edge_id = ''e4'', fromNode = ''n2'', toNode = ''n2''\<rparr>]\<rparr>\<rparr>)
      ''n1'')) = [\<lparr>edge_id = ''e4'', fromNode = ''n2'', toNode = ''n2''\<rparr>]"
proof -
  have store: "state_onNodeDelete example_doc_state = useDocState_onNodeDelete"
    by (simp add: example_doc_state_def useDocState_onNodeDelete_def fun_eq_iff)
  show ?thesis
    using store
      cascade_delete[of
        "example_state
           \<lparr>doc := example_doc
              \<lparr>nodes := [node_n1, node_n1\<lparr>node_id := ''n2''\<rparr>],
               edges := [edge_e1, edge_e3, \<lparr>edge_id = ''e4'', fromNode = ''n2'', toNode = ''n2''\<rparr>]\<rparr>\<rparr>"
        "''n1''" "''U1''" "''U2''" example_doc_state
        "example_hook
           \<lparr>doc := example_doc
              \<lparr>nodes := [node_n1, node_n1\<lparr>node_id := ''n2''\<rparr>],
               edges := [edge_e1, edge_e3, \<lparr>edge_id = ''e4'', fromNode = ''n2'', toNode = ''n2''\<rparr>]\<rparr>\<rparr>"]
    by (simp add: example_state_def example_hook_def example_doc_def node_n1_def
        edge_e1_def edge_e3_def useDocState_onNodeDelete_def)
qed

text \<open>
  C9. \<^verbatim>\<open>edge:delete\<close> keeps exactly the edges whose pair of end points is not the pair of
  the action, whatever their ids, and changes nothing else in the state. Every edge between
  that ordered pair goes, every other edge stays.
\<close>

theorem edge_delete_by_endpoints:
  "edges (doc (apply_action s (EdgeDelete from to) sender)) =
     filter (\<lambda>e. (fromNode e, toNode e) \<noteq> (from, to)) (edges (doc s))
   \<and> (\<forall>e\<in>set (edges (doc (apply_action s (EdgeDelete from to) sender))).
        (fromNode e, toNode e) \<noteq> (from, to))
   \<and> (\<forall>e\<in>set (edges (doc s)).
        (fromNode e, toNode e) \<noteq> (from, to)
        \<longrightarrow> e \<in> set (edges (doc (apply_action s (EdgeDelete from to) sender))))
   \<and> apply_action s (EdgeDelete from to) sender =
       s\<lparr>doc := (doc s)
            \<lparr>edges := filter (\<lambda>e. (fromNode e, toNode e) \<noteq> (from, to)) (edges (doc s))\<rparr>\<rparr>"
  by (simp add: Let_def)

text \<open>
  Two different edges from \<open>n1\<close> to \<open>n2\<close> and one back: one delete for the pair
  \<open>(n1, n2)\<close> removes both and keeps the edge back.
\<close>

theorem edge_delete_by_endpoints_witness:
  "edge_e1 \<noteq> edge_e2
   \<and> edges (doc (apply_action
        (example_state\<lparr>doc := example_doc\<lparr>edges := [edge_e1, edge_e3, edge_e2]\<rparr>\<rparr>)
        (EdgeDelete ''n1'' ''n2'') ''U1'')) = [edge_e3]"
  using edge_delete_by_endpoints[of
      "example_state\<lparr>doc := example_doc\<lparr>edges := [edge_e1, edge_e3, edge_e2]\<rparr>\<rparr>"
      "''n1''" "''n2''" "''U1''"]
  by (simp add: example_state_def example_doc_def edge_e1_def edge_e2_def edge_e3_def)

section \<open>Creating what is already there\<close>

text \<open>
  The reducer has no guard on the id of a created entity. With \<open>n1\<close> on the board, a second
  \<^verbatim>\<open>node:create\<close> for \<open>n1\<close> gives a document with two entries \<open>n1\<close>, and a second
  \<^verbatim>\<open>edge:create\<close> for \<open>e1\<close> gives two entries \<open>e1\<close>; neither document is the one before.
\<close>

theorem duplicate_create_counterexample:
  "nodes (doc example_state_n1) = [node_n1]
   \<and> nodes (doc (apply_action example_state_n1 (NodeCreate node_n1) ''U1'')) = [node_n1, node_n1]
   \<and> doc (apply_action example_state_n1 (NodeCreate node_n1) ''U1'') \<noteq> doc example_state_n1
   \<and> edges (doc example_state_e1) = [edge_e1]
   \<and> edges (doc (apply_action example_state_e1 (EdgeCreate edge_e1) ''U1'')) = [edge_e1, edge_e1]
   \<and> doc (apply_action example_state_e1 (EdgeCreate edge_e1) ''U1'') \<noteq> doc example_state_e1"
proof -
  have n: "nodes (doc (apply_action example_state_n1 (NodeCreate node_n1) ''U1'')) = [node_n1, node_n1]"
    by (simp add: example_state_n1_def example_state_def example_doc_def)
  have n0: "nodes (doc example_state_n1) = [node_n1]"
    by (simp add: example_state_n1_def example_state_def example_doc_def)
  have e: "edges (doc (apply_action example_state_e1 (EdgeCreate edge_e1) ''U1'')) = [edge_e1, edge_e1]"
    by (simp add: example_state_e1_def example_state_def example_doc_def)
  have e0: "edges (doc example_state_e1) = [edge_e1]"
    by (simp add: example_state_e1_def example_state_def example_doc_def)
  have dn: "doc (apply_action example_state_n1 (NodeCreate node_n1) ''U1'') \<noteq> doc example_state_n1"
  proof
    assume "doc (apply_action example_state_n1 (NodeCreate node_n1) ''U1'') = doc example_state_n1"
    then have "nodes (doc (apply_action example_state_n1 (NodeCreate node_n1) ''U1'')) =
        nodes (doc example_state_n1)"
      by (rule arg_cong)
    then show False unfolding n n0 by simp
  qed
  have de: "doc (apply_action example_state_e1 (EdgeCreate edge_e1) ''U1'') \<noteq> doc example_state_e1"
  proof
    assume "doc (apply_action example_state_e1 (EdgeCreate edge_e1) ''U1'') = doc example_state_e1"
    then have "edges (doc (apply_action example_state_e1 (EdgeCreate edge_e1) ''U1'')) =
        edges (doc example_state_e1)"
      by (rule arg_cong)
    then show False unfolding e e0 by simp
  qed
  from n0 n dn e0 e de show ?thesis by blast
qed

text \<open>
  C6, amended. \<^verbatim>\<open>node:create\<close> appends the node of the action to the node list whether or
  not the id is already there, so the list grows by one; a fragment buffered for that id is
  assigned onto the first entry with the id. \<^verbatim>\<open>edge:create\<close> appends the edge of the action
  to the edge list.
\<close>

theorem create_always_appends:
  "nodes (doc (apply_action s (NodeCreate node) sender)) =
     (case pendingUpdates s (node_id node) of
        None \<Rightarrow> nodes (doc s) @ [node]
      | Some q \<Rightarrow> assign_found (node_id node) q (nodes (doc s) @ [node]))
   \<and> length (nodes (doc (apply_action s (NodeCreate node) sender))) = Suc (length (nodes (doc s)))
   \<and> edges (doc (apply_action s (EdgeCreate e) sender)) = edges (doc s) @ [e]"
  by (simp add: Let_def length_assign_found split: option.splits)

text \<open>The second \<^verbatim>\<open>node:create\<close> for \<open>n1\<close> and the second \<^verbatim>\<open>edge:create\<close> for \<open>e1\<close>.\<close>

theorem create_always_appends_witness:
  "length (nodes (doc (apply_action example_state_n1 (NodeCreate node_n1) ''U1''))) = 2
   \<and> edges (doc (apply_action example_state_e1 (EdgeCreate edge_e1) ''U1'')) = [edge_e1, edge_e1]"
  using create_always_appends[of example_state_n1 node_n1 "''U1''" edge_e1]
    create_always_appends[of example_state_e1 node_n1 "''U1''" edge_e1]
  by (simp add: example_state_n1_def example_state_e1_def example_state_def example_doc_def)

section \<open>Applying an action twice\<close>

text \<open>
  \<^verbatim>\<open>Object.assign\<close> copies an \<^verbatim>\<open>id\<close> in the properties like any other property. With
  \<open>n1\<close> on the board, \<^verbatim>\<open>node:update{id:"n1",props:{id:"n2"}}\<close> renames the node; applied
  again it finds no node \<open>n1\<close> and buffers the properties under \<open>n1\<close>. The state after two
  applications is not the state after one.
\<close>

theorem update_twice_counterexample:
  "apply_action (apply_action example_state_n1 (NodeUpdate ''n1'' props_rename) ''U1'')
     (NodeUpdate ''n1'' props_rename) ''U1''
   \<noteq> apply_action example_state_n1 (NodeUpdate ''n1'' props_rename) ''U1''"
proof
  assume eq: "apply_action (apply_action example_state_n1 (NodeUpdate ''n1'' props_rename) ''U1'')
     (NodeUpdate ''n1'' props_rename) ''U1''
   = apply_action example_state_n1 (NodeUpdate ''n1'' props_rename) ''U1''"
  have once: "pendingUpdates
      (apply_action example_state_n1 (NodeUpdate ''n1'' props_rename) ''U1'') ''n1'' = None"
    by (simp add: example_state_n1_def example_state_def example_doc_def node_n1_def)
  have twice: "pendingUpdates
      (apply_action (apply_action example_state_n1 (NodeUpdate ''n1'' props_rename) ''U1'')
         (NodeUpdate ''n1'' props_rename) ''U1'') ''n1'' \<noteq> None"
    by (simp add: example_state_n1_def example_state_def example_doc_def node_n1_def
        props_rename_def assign_node_def)
  from twice show False unfolding eq once by simp
qed

text \<open>
  C8, amended. An action that is neither \<^verbatim>\<open>node:create\<close> nor \<^verbatim>\<open>edge:create\<close>, and that,
  when it is a \<^verbatim>\<open>node:update\<close>, carries no \<^verbatim>\<open>id\<close> in its properties other than the id it
  addresses, gives the same state applied twice as applied once.
\<close>

theorem non_create_idempotent:
  assumes "a \<notin> range NodeCreate" and "a \<notin> range EdgeCreate"
    and "\<forall>i p. a = NodeUpdate i p \<longrightarrow> props_id p = None \<or> props_id p = Some i"
  shows "apply_action (apply_action s a sender) a sender = apply_action s a sender"
proof (cases a)
  case (NodeUpdate i p)
  with assms have ok: "props_id p = None \<or> props_id p = Some i" by simp
  show ?thesis
  proof (cases "find (\<lambda>n. node_id n = i) (nodes (doc s))")
    case None
    then show ?thesis unfolding NodeUpdate by (simp add: assign_props_twice)
  next
    case (Some n)
    then show ?thesis unfolding NodeUpdate
      by (simp add: Let_def find_assign_found[OF ok] assign_found_twice[OF ok])
  qed
next
  case (NodeSelect ids c)
  then show ?thesis by (simp add: Let_def)
next
  case (NodeCreate n)
  with assms show ?thesis by blast
next
  case (EdgeCreate e)
  with assms show ?thesis by blast
qed (simp_all add: Let_def)

text \<open>The update \<^verbatim>\<open>{x:5}\<close> for \<open>n1\<close>, on the board with \<open>n1\<close> and on the empty one.\<close>

theorem non_create_idempotent_witness:
  "NodeUpdate ''n1'' props_x5 \<notin> range NodeCreate
   \<and> NodeUpdate ''n1'' props_x5 \<notin> range EdgeCreate
   \<and> props_id props_x5 = None
   \<and> apply_action (apply_action example_state_n1 (NodeUpdate ''n1'' props_x5) ''U1'')
        (NodeUpdate ''n1'' props_x5) ''U1''
     = apply_action example_state_n1 (NodeUpdate ''n1'' props_x5) ''U1''
   \<and> apply_action (apply_action example_state (NodeUpdate ''n1'' props_x5) ''U1'')
        (NodeUpdate ''n1'' props_x5) ''U1''
     = apply_action example_state (NodeUpdate ''n1'' props_x5) ''U1''"
  using non_create_idempotent[of "NodeUpdate ''n1'' props_x5" example_state_n1 "''U1''"]
    non_create_idempotent[of "NodeUpdate ''n1'' props_x5" example_state "''U1''"]
  by (auto simp: props_x5_def)

section \<open>Presence\<close>

text \<open>
  C10. \<^verbatim>\<open>node:select\<close> from a sender sets the sender's selection to the ids of the action
  and writes the sender's cursor: the colour of the action, with the position the sender's
  cursor had, or \<open>(0, 0)\<close> when the sender had no cursor. The entries of every other sender,
  the document and the buffer stay as they are.
\<close>

theorem select_writes_presence:
  "selections (apply_action s (NodeSelect ids c) sender) sender = Some ids
   \<and> (\<forall>k. cursors s sender = Some k \<longrightarrow>
        cursors (apply_action s (NodeSelect ids c) sender) sender =
          Some \<lparr>cursor_x = cursor_x k, cursor_y = cursor_y k, color = c\<rparr>)
   \<and> (cursors s sender = None \<longrightarrow>
        cursors (apply_action s (NodeSelect ids c) sender) sender =
          Some \<lparr>cursor_x = 0, cursor_y = 0, color = c\<rparr>)
   \<and> (\<forall>u. u \<noteq> sender \<longrightarrow>
        cursors (apply_action s (NodeSelect ids c) sender) u = cursors s u
        \<and> selections (apply_action s (NodeSelect ids c) sender) u = selections s u)
   \<and> doc (apply_action s (NodeSelect ids c) sender) = doc s
   \<and> pendingUpdates (apply_action s (NodeSelect ids c) sender) = pendingUpdates s"
  by (simp add: Let_def)

text \<open>
  \<open>U2\<close> has moved the cursor to \<open>(3, 4)\<close> in red. A selection in blue by \<open>U2\<close> keeps the
  position and changes the colour; a selection by \<open>U3\<close>, who has no cursor yet, puts the cursor
  of \<open>U3\<close> at the origin and leaves the cursor of \<open>U2\<close> alone.
\<close>

theorem select_writes_presence_witness:
  "cursors (apply_action example_state (CursorMove 3 4 ''red'') ''U2'') ''U2''
     = Some \<lparr>cursor_x = 3, cursor_y = 4, color = ''red''\<rparr>
   \<and> cursors (apply_action (apply_action example_state (CursorMove 3 4 ''red'') ''U2'')
        (NodeSelect [''n1''] ''blue'') ''U2'') ''U2''
     = Some \<lparr>cursor_x = 3, cursor_y = 4, color = ''blue''\<rparr>
   \<and> cursors (apply_action example_state (CursorMove 3 4 ''red'') ''U2'') ''U3'' = None
   \<and> cursors (apply_action (apply_action example_state (CursorMove 3 4 ''red'') ''U2'')
        (NodeSelect [''n1''] ''blue'') ''U3'') ''U3''
     = Some \<lparr>cursor_x = 0, cursor_y = 0, color = ''blue''\<rparr>
   \<and> ''U2'' \<noteq> ''U3''
   \<and> cursors (apply_action (apply_action example_state (CursorMove 3 4 ''red'') ''U2'')
        (NodeSelect [''n1''] ''blue'') ''U3'') ''U2''
     = Some \<lparr>cursor_x = 3, cursor_y = 4, color = ''red''\<rparr>"
  using select_writes_presence[of "apply_action example_state (CursorMove 3 4 ''red'') ''U2''"
      "[''n1'']" "''blue''" "''U2''"]
    select_writes_presence[of "apply_action example_state (CursorMove 3 4 ''red'') ''U2''"
      "[''n1'']" "''blue''" "''U3''"]
  by (simp add: example_state_def)

section \<open>Send gating and the room\<close>

text \<open>
  C5. Once the effect has set \<^verbatim>\<open>canSendRef\<close>, each local document edit hands its action to
  \<^verbatim>\<open>send\<close> exactly when the document has no recorded owner, or the local identity is the
  owner, or a session token is set; otherwise nothing is handed over. Either way the document
  is the one the edit produces. A node update is handed over when its debounce timer runs
  out, not at the call.
\<close>

theorem send_gating:
  fixes h :: "('v, 'z) hook_scheme"
  assumes g: "g = canSend_effect h"
    and ok: "ok = send_permitted (userId (doc h)) (session_userId h) (sessionToken h)"
  shows
    "sent (snd (onNodeCreate st g p)) =
       (if ok then sent h @ [NodeCreate (fst (state_onNodeCreate st p (doc h)))] else sent h)
     \<and> doc (snd (onNodeCreate st g p)) = snd (state_onNodeCreate st p (doc h))
     \<and> sent (onNodeDelete st g i) = (if ok then sent h @ [NodeDelete i] else sent h)
     \<and> doc (onNodeDelete st g i) = state_onNodeDelete st i (doc h)
     \<and> sent (onNodeUpdate st g i p) = sent h
     \<and> sent (sendUpdate_fire (onNodeUpdate st g i p)) =
         (if ok then sent h @ [NodeUpdate i p] else sent h)
     \<and> doc (sendUpdate_fire (onNodeUpdate st g i p)) = state_onNodeUpdate st i p (doc h)
     \<and> sent (onConnect rid g from to) =
         (if ok then sent h @ [EdgeCreate \<lparr>edge_id = rid, fromNode = from, toNode = to\<rparr>]
          else sent h)
     \<and> edges (doc (onConnect rid g from to)) =
         edges (doc h) @ [\<lparr>edge_id = rid, fromNode = from, toNode = to\<rparr>]
     \<and> sent (onDisconnect st g from to) = (if ok then sent h @ [EdgeDelete from to] else sent h)
     \<and> doc (onDisconnect st g from to) = state_onDisconnect st from to (doc h)
     \<and> sent (onBackgroundColorChange st g c) =
         (if ok then sent h @ [SpaceBackground c] else sent h)
     \<and> doc (onBackgroundColorChange st g c) = state_onBackgroundColorChange st c (doc h)
     \<and> sent (onTitleChange g t) = (if ok then sent h @ [SpaceTitle t] else sent h)
     \<and> title (doc (onTitleChange g t)) = t"
proof -
  have r: "canSendRef g = ok" unfolding g ok by (rule canSendRef_effect)
  have d: "doc g = doc h" and s: "sent g = sent h"
    unfolding g by (rule canSend_effect_fields)+
  have 1: "sent (snd (onNodeCreate st g p)) =
       (if ok then sent h @ [NodeCreate (fst (state_onNodeCreate st p (doc h)))] else sent h)"
    "doc (snd (onNodeCreate st g p)) = snd (state_onNodeCreate st p (doc h))"
    by (simp_all add: onNodeCreate_def sendIfAllowed_fields r d s split: prod.splits)
  have 2: "sent (onNodeDelete st g i) = (if ok then sent h @ [NodeDelete i] else sent h)"
    "doc (onNodeDelete st g i) = state_onNodeDelete st i (doc h)"
    by (simp_all add: onNodeDelete_def sendIfAllowed_fields r d s)
  have 3: "sent (onNodeUpdate st g i p) = sent h"
    "sent (sendUpdate_fire (onNodeUpdate st g i p)) =
         (if ok then sent h @ [NodeUpdate i p] else sent h)"
    "doc (sendUpdate_fire (onNodeUpdate st g i p)) = state_onNodeUpdate st i p (doc h)"
    by (simp_all add: onNodeUpdate_def sendUpdate_def sendUpdate_fire_def sendIfAllowed_fields r d s)
  have 4: "sent (onConnect rid g from to) =
         (if ok then sent h @ [EdgeCreate \<lparr>edge_id = rid, fromNode = from, toNode = to\<rparr>]
          else sent h)"
    "edges (doc (onConnect rid g from to)) =
         edges (doc h) @ [\<lparr>edge_id = rid, fromNode = from, toNode = to\<rparr>]"
    by (simp_all add: onConnect_def Let_def sendIfAllowed_fields r d s)
  have 5: "sent (onDisconnect st g from to) = (if ok then sent h @ [EdgeDelete from to] else sent h)"
    "doc (onDisconnect st g from to) = state_onDisconnect st from to (doc h)"
    by (simp_all add: onDisconnect_def sendIfAllowed_fields r d s)
  have 6: "sent (onBackgroundColorChange st g c) =
         (if ok then sent h @ [SpaceBackground c] else sent h)"
    "doc (onBackgroundColorChange st g c) = state_onBackgroundColorChange st c (doc h)"
    by (simp_all add: onBackgroundColorChange_def sendIfAllowed_fields r d s)
  have 7: "sent (onTitleChange g t) = (if ok then sent h @ [SpaceTitle t] else sent h)"
    "title (doc (onTitleChange g t)) = t"
    by (simp_all add: onTitleChange_def Let_def sendIfAllowed_fields r d s)
  from 1 2 3 4 5 6 7 show ?thesis by blast
qed

text \<open>
  The document of \<open>U1\<close> viewed by \<open>U2\<close> with no session token: deleting a node, changing the
  title and connecting two nodes hand nothing to \<^verbatim>\<open>send\<close>, and the title and the edge are in
  the document. With the token \<open>tok\<close> the title change is sent, and so is the update of the
  owner \<open>U1\<close> when the timer runs out.
\<close>

theorem send_gating_witness:
  "\<not> send_permitted (userId (doc example_hook)) (session_userId example_hook)
        (sessionToken example_hook)
   \<and> sent (onNodeDelete example_doc_state (canSend_effect example_hook) ''n1'') = []
   \<and> sent (onTitleChange (canSend_effect example_hook) ''Plan'') = []
   \<and> title (doc (onTitleChange (canSend_effect example_hook) ''Plan'')) = ''Plan''
   \<and> sent (onConnect ''e9'' (canSend_effect example_hook) ''n1'' ''n2'') = []
   \<and> edges (doc (onConnect ''e9'' (canSend_effect example_hook) ''n1'' ''n2'')) =
        [\<lparr>edge_id = ''e9'', fromNode = ''n1'', toNode = ''n2''\<rparr>]
   \<and> send_permitted (userId (doc example_hook)) (session_userId example_hook) ''tok''
   \<and> sent (onTitleChange (canSend_effect (example_hook\<lparr>sessionToken := ''tok''\<rparr>)) ''Plan'') =
        [SpaceTitle ''Plan'']
   \<and> sent (sendUpdate_fire (onNodeUpdate example_doc_state
        (canSend_effect (example_hook\<lparr>session_userId := ''U1''\<rparr>)) ''n1'' props_x5)) =
        [NodeUpdate ''n1'' props_x5]"
  using send_gating[of "canSend_effect example_hook" example_hook False
      example_doc_state empty_props "''n1''" "''e9''" "''n1''" "''n2''" "''white''" "''Plan''"]
    send_gating[of "canSend_effect (example_hook\<lparr>sessionToken := ''tok''\<rparr>)"
      "example_hook\<lparr>sessionToken := ''tok''\<rparr>" True
      example_doc_state empty_props "''n1''" "''e9''" "''n1''" "''n2''" "''white''" "''Plan''"]
    send_gating[of "canSend_effect (example_hook\<lparr>session_userId := ''U1''\<rparr>)"
      "example_hook\<lparr>session_userId := ''U1''\<rparr>" True
      example_doc_state props_x5 "''n1''" "''e9''" "''n1''" "''n2''" "''white''" "''Plan''"]
  by (simp add: send_permitted_def example_hook_def example_doc_def)

text \<open>
  With no session token the room of the revision with sessions is the empty string, not the
  id of the document.
\<close>

theorem room_without_token_counterexample:
  "sessionToken example_hook = []
   \<and> roomId (doc_id (doc example_hook)) (sessionToken example_hook) \<noteq> doc_id (doc example_hook)"
  by (simp add: roomId_def example_hook_def example_doc_def)

text \<open>
  C7, amended. In the revision with sessions the room is the document id, a colon and the
  session token when a token is set, and the empty string when none is. The revision without
  sessions passes the document id alone to the channel.
\<close>

theorem room_identity:
  "(token \<noteq> [] \<longrightarrow> roomId docId token = docId @ '':'' @ token)
   \<and> (token = [] \<longrightarrow> roomId docId token = [])
   \<and> useRealtimeChannel_room d = doc_id d"
  by (simp add: roomId_def useRealtimeChannel_room_def)

text \<open>Document \<open>d1\<close> with the token \<open>tok\<close>, and without a token.\<close>

theorem room_identity_witness:
  "roomId ''d1'' ''tok'' = ''d1:tok'' \<and> roomId ''d1'' [] = []
   \<and> useRealtimeChannel_room example_doc = ''d1''"
  using room_identity[of "''tok''" "''d1''" example_doc] room_identity[of "[]" "''d1''" example_doc]
  by (simp add: example_doc_def)

end

